theory Spec2Isabelle
  imports Complex_Main
begin

text \<open>
  A model of three parts of AutoKeras and the properties proved of them: the layer
  \<^verbatim>\<open>TextVectorizationWithTokenizer\<close> and the layer \<^verbatim>\<open>MultiCategoryEncoding\<close> of
  \<^verbatim>\<open>keras_layers.py\<close>, and the \<^verbatim>\<open>build\<close> methods of the input nodes of
  \<^verbatim>\<open>nodes.py\<close>. Methods that change their object return the changed object; a
  method that can raise returns either the error or its result. What the code calls in
  TensorFlow, Keras or the tokenizer is either written out from its documented behaviour
  or taken as a parameter, as said at each place.
\<close>

section \<open>Errors\<close>

text \<open>
  The exceptions that the modelled code can raise, either from Python itself or from a
  TensorFlow or Keras operation it calls. Each constructor names the exception class and
  the operation raising it.
\<close>

datatype error =
    TypeError_len_None
  | IndexError
  | ValueError_ragged
  | InvalidArgument_concat_dtype
  | InvalidArgument_concat_shape
  | InvalidArgument_stack
  | InvalidArgument_split nat nat
  | InvalidArgument_to_number string
  | ValueError_concatenate

text \<open>The element types of TensorFlow that occur in the modelled code.\<close>

datatype dtype = tf_int32 | tf_float32 | tf_string

section \<open>The layer TextVectorizationWithTokenizer\<close>

text \<open>
  The tokenizer is supplied by the caller (a \<^verbatim>\<open>bert.tokenization.FullTokenizer\<close> in
  the docstring). The layer uses two of its methods, which are the two fields here.
\<close>

record tokenizer =
  tokenize :: "string \<Rightarrow> string list"
  convert_tokens_to_ids :: "string list \<Rightarrow> int list"

record text_vectorization =
  tokenizer :: tokenizer
  max_seq_len :: int

text \<open>Python's \<^verbatim>\<open>xs * k\<close> on a list: no copies when \<open>k \<le> 0\<close>.\<close>

definition py_repeat :: "'a list \<Rightarrow> int \<Rightarrow> 'a list" where
  "py_repeat xs k = concat (replicate (nat k) xs)"

text \<open>
  Python's slice \<^verbatim>\<open>xs[0:k]\<close>: a negative \<open>k\<close> counts from the end of the list,
  and a bound beyond either end is clipped.
\<close>

definition py_slice_to :: "'a list \<Rightarrow> int \<Rightarrow> 'a list" where
  "py_slice_to xs k =
     (if 0 \<le> k then take (nat k) xs else take (nat (int (length xs) + k)) xs)"

definition encode_sentence :: "text_vectorization \<Rightarrow> string \<Rightarrow> int list" where
  "encode_sentence self s =
     (let tokens = tokenize (tokenizer self) s;
          tokens = tokens @ [''[SEP]''];
          tokens =
            (if int (length tokens) < max_seq_len self - 1
             then tokens @ py_repeat [''[UNK]''] (max_seq_len self - int (length tokens) - 1)
             else py_slice_to tokens (max_seq_len self - 1))
      in convert_tokens_to_ids (tokenizer self) tokens)"

text \<open>
  A tensor of numbers: its element type, its shape and, when it has rank two, its rows.
  The tensor of shape \<^verbatim>\<open>(0,)\<close> has no row. The entries in this layer are whole
  numbers, also in a tensor whose element type is \<^verbatim>\<open>float32\<close>.
\<close>

datatype tensor = Tensor (dtype_of: dtype) (shape_of: "nat list") (rows_of: "int list list")

text \<open>
  \<^verbatim>\<open>tf.constant\<close> on a Python list of rows, which is also how TensorFlow converts such
  a list where an operation expects a tensor. The empty list gives the shape
  \<^verbatim>\<open>(0,)\<close>; a ragged list raises \<^verbatim>\<open>ValueError\<close>. The element type comes from
  the entries: \<^verbatim>\<open>int32\<close> for integers, and \<^verbatim>\<open>float32\<close> when there is no entry
  at all.
\<close>

definition tf_constant :: "int list list \<Rightarrow> error + tensor" where
  "tf_constant rs =
     (if rs = [] then Inr (Tensor tf_float32 [0] [])
      else if list_all (\<lambda>r. length r = length (hd rs)) rs
        then Inr (Tensor (if concat rs = [] then tf_float32 else tf_int32)
                    [length rs, length (hd rs)] rs)
      else Inl ValueError_ragged)"

text \<open>
  The input tensor is a list of rows, the sentence being the first entry \<^verbatim>\<open>s[0]\<close> of
  its row; indexing an empty row raises \<^verbatim>\<open>IndexError\<close>.
\<close>

fun encode_rows :: "text_vectorization \<Rightarrow> string list list \<Rightarrow> error + int list list" where
  "encode_rows self [] = Inr []"
| "encode_rows self (s # input_array) =
     (case s of
        [] \<Rightarrow> Inl IndexError
      | s0 # _ \<Rightarrow>
          (case encode_rows self input_array of
             Inl e \<Rightarrow> Inl e
           | Inr encoded \<Rightarrow> Inr (encode_sentence self s0 # encoded)))"

definition get_encoded_sentence ::
    "text_vectorization \<Rightarrow> string list list \<Rightarrow> error + tensor" where
  "get_encoded_sentence self input_tensor =
     (case encode_rows self input_tensor of
        Inl e \<Rightarrow> Inl e
      | Inr encoded \<Rightarrow> tf_constant encoded)"

text \<open>
  Where \<^verbatim>\<open>tf.concat\<close> gets a Python list beside a tensor, it converts the list to
  the element type of the tensor.
\<close>

definition convert_as :: "dtype \<Rightarrow> int list list \<Rightarrow> error + tensor" where
  "convert_as d rs =
     (case tf_constant rs of
        Inl e \<Rightarrow> Inl e
      | Inr t \<Rightarrow> Inr (Tensor d (shape_of t) (rows_of t)))"

text \<open>
  \<^verbatim>\<open>tf.concat\<close> of two tensors along the last axis. It raises an error when the
  element types differ, and when the shapes differ in another axis than the last.
\<close>

definition tf_concat_last :: "tensor \<Rightarrow> tensor \<Rightarrow> error + tensor" where
  "tf_concat_last a b =
     (if dtype_of a = dtype_of b
      then (if length (shape_of a) = length (shape_of b)
               \<and> butlast (shape_of a) = butlast (shape_of b)
            then Inr (Tensor (dtype_of a)
                        (butlast (shape_of a) @ [last (shape_of a) + last (shape_of b)])
                        (map (\<lambda>(x, y). x @ y) (zip (rows_of a) (rows_of b))))
            else Inl InvalidArgument_concat_shape)
      else Inl InvalidArgument_concat_dtype)"

definition ones_like :: "tensor \<Rightarrow> tensor" where
  "ones_like a = Tensor (dtype_of a) (shape_of a) (map (map (\<lambda>_. 1)) (rows_of a))"

definition zeros_like :: "tensor \<Rightarrow> tensor" where
  "zeros_like a = Tensor (dtype_of a) (shape_of a) (map (map (\<lambda>_. 0)) (rows_of a))"

text \<open>
  \<^verbatim>\<open>tf.stack\<close> of three tensors, which must agree in element type and shape: the
  tensor with a new first axis of size three, here with the rows of each of the three.
\<close>

datatype stacked =
  Stacked (stacked_dtype: dtype) (stacked_shape: "nat list") (components: "int list list list")

definition tf_stack3 :: "tensor \<Rightarrow> tensor \<Rightarrow> tensor \<Rightarrow> error + stacked" where
  "tf_stack3 a b c =
     (if dtype_of b = dtype_of a \<and> dtype_of c = dtype_of a
         \<and> shape_of b = shape_of a \<and> shape_of c = shape_of a
      then Inr (Stacked (dtype_of a) (3 # shape_of a) [rows_of a, rows_of b, rows_of c])
      else Inl InvalidArgument_stack)"

text \<open>
  \<^verbatim>\<open>bert_encode\<close>. The list \<^verbatim>\<open>cls\<close> is a Python list: \<^verbatim>\<open>tf.concat\<close>
  converts it beside \<^verbatim>\<open>sentence\<close>, and \<^verbatim>\<open>tf.zeros_like\<close> converts it on its
  own.
\<close>

definition bert_encode :: "text_vectorization \<Rightarrow> string list list \<Rightarrow> error + stacked" where
  "bert_encode self input_tensor =
     (case get_encoded_sentence self input_tensor of
        Inl e \<Rightarrow> Inl e
      | Inr sentence \<Rightarrow>
          (case shape_of sentence of
             [] \<Rightarrow> Inl IndexError
           | batch # _ \<Rightarrow>
               (let cls = replicate batch (convert_tokens_to_ids (tokenizer self) [''[CLS]''])
                in case convert_as (dtype_of sentence) cls of
                     Inl e \<Rightarrow> Inl e
                   | Inr cls_beside \<Rightarrow>
                       (case tf_concat_last cls_beside sentence of
                          Inl e \<Rightarrow> Inl e
                        | Inr input_word_ids \<Rightarrow>
                            (let input_mask = ones_like input_word_ids
                             in case tf_constant cls of
                                  Inl e \<Rightarrow> Inl e
                                | Inr cls_alone \<Rightarrow>
                                    (let type_cls = zeros_like cls_alone;
                                         type_s1 = zeros_like sentence
                                     in case tf_concat_last type_cls type_s1 of
                                          Inl e \<Rightarrow> Inl e
                                        | Inr input_type_ids \<Rightarrow>
                                            tf_stack3 input_word_ids input_mask
                                              input_type_ids))))))"

text \<open>
  A tokenizer for concrete evaluation: it splits at spaces and looks each token up in a
  small vocabulary with the identifiers of the docstring, \<^verbatim>\<open>[UNK]\<close> standing for
  every token that is not listed.
\<close>

definition sample_tokenize :: "string \<Rightarrow> string list" where
  "sample_tokenize s =
     filter (\<lambda>w. w \<noteq> [])
       (foldr (\<lambda>c ws. if c = CHR '' '' then [] # ws else (c # hd ws) # tl ws) s [[]])"

definition sample_vocab :: "(string \<times> int) list" where
  "sample_vocab =
     [(''[UNK]'', 100), (''[CLS]'', 101), (''[SEP]'', 102), (''[MASK]'', 103),
      (''hi'', 7632), (''there'', 2045)]"

definition sample_convert :: "string list \<Rightarrow> int list" where
  "sample_convert ts =
     map (\<lambda>t. case map_of sample_vocab t of Some i \<Rightarrow> i | None \<Rightarrow> 100) ts"

definition sample_tokenizer :: tokenizer where
  "sample_tokenizer = \<lparr>tokenize = sample_tokenize, convert_tokens_to_ids = sample_convert\<rparr>"

text \<open>
  What the layer expects of the tokenizer's conversion: one identifier for each token.
\<close>

definition one_id_per_token :: "tokenizer \<Rightarrow> bool" where
  "one_id_per_token tk \<longleftrightarrow> (\<forall>ts. length (convert_tokens_to_ids tk ts) = length ts)"

section \<open>The input nodes\<close>

text \<open>
  A shape is a tuple of dimensions, each an integer or \<^verbatim>\<open>None\<close>; a node's
  \<^verbatim>\<open>shape\<close> attribute is \<^verbatim>\<open>None\<close> until it is configured.
\<close>

type_synonym shape = "int option list"

text \<open>
  The symbolic tensor that \<^verbatim>\<open>tf.keras.Input(shape=..., dtype=...)\<close> returns,
  recorded by the two arguments it was made from. Keras accepts \<^verbatim>\<open>None\<close> as a
  dimension of the shape (a dimension of unknown size); what else Keras checks about its
  arguments is not part of this model.
\<close>

datatype keras_tensor = keras_Input "shape option" dtype

text \<open>
  One constructor for each class of \<^verbatim>\<open>nodes.py\<close>, holding the attributes that the
  class sets: \<^verbatim>\<open>shape\<close> first, then \<^verbatim>\<open>has_channel_dim\<close> for an image node,
  \<^verbatim>\<open>column_names\<close> and \<^verbatim>\<open>column_types\<close> for a structured data node, and
  \<^verbatim>\<open>lookback\<close>, \<^verbatim>\<open>column_names\<close> and \<^verbatim>\<open>column_types\<close> for a time
  series node.
\<close>

datatype node =
    Input "shape option"
  | ImageInput "shape option" bool
  | TextInput "shape option"
  | StructuredDataInput "shape option" "string list option" "(string \<times> string) list option"
  | TimeseriesInput "shape option" "int option" "string list option"
      "(string \<times> string) list option"

text \<open>
  \<^verbatim>\<open>build\<close> returns the node as the call leaves it together with the symbolic
  input. \<^verbatim>\<open>ImageInput\<close> inherits \<^verbatim>\<open>Input.build\<close>. In
  \<^verbatim>\<open>TimeseriesInput.build\<close>, \<^verbatim>\<open>len(self.shape)\<close> raises
  \<^verbatim>\<open>TypeError\<close> when the shape is still \<^verbatim>\<open>None\<close>.
\<close>

fun build :: "node \<Rightarrow> error + node \<times> keras_tensor" where
  "build (Input sh) = Inr (Input sh, keras_Input sh tf_float32)"
| "build (ImageInput sh has_channel_dim) =
     Inr (ImageInput sh has_channel_dim, keras_Input sh tf_float32)"
| "build (TextInput sh) = Inr (TextInput sh, keras_Input sh tf_string)"
| "build (StructuredDataInput sh column_names column_types) =
     Inr (StructuredDataInput sh column_names column_types, keras_Input sh tf_string)"
| "build (TimeseriesInput sh lookback column_names column_types) =
     (case sh of
        None \<Rightarrow> Inl TypeError_len_None
      | Some dims \<Rightarrow>
          (if length dims = 1
           then let sh' = Some [lookback, dims ! 0]
                in Inr (TimeseriesInput sh' lookback column_names column_types,
                        keras_Input sh' tf_float32)
           else Inr (TimeseriesInput sh lookback column_names column_types,
                     keras_Input sh tf_float32)))"

section \<open>The layer MultiCategoryEncoding\<close>

text \<open>The three tags; \<^verbatim>\<open>INT\<close> of the source is \<open>INT_tag\<close> here.\<close>

definition INT_tag :: string where "INT_tag = ''int''"
definition NONE :: string where "NONE = ''none''"
definition ONE_HOT :: string where "ONE_HOT = ''one-hot''"

text \<open>
  A \<^verbatim>\<open>tf.float32\<close> value is a number, an infinity or NaN. Rounding plays no part in
  what the layer does, so the numbers are kept exact.
\<close>

datatype float32 = Finite rat | PosInf | NegInf | NaN

text \<open>
  A tensor of rank two: its number of columns (which it has even with no row) and its
  rows. \<open>rectangular\<close> says that every row has that many entries, as in every
  tensor.
\<close>

datatype 'a tensor2 = Tensor2 (ncols: nat) (rows: "'a list list")

definition rectangular :: "'a tensor2 \<Rightarrow> bool" where
  "rectangular t \<longleftrightarrow> list_all (\<lambda>r. length r = ncols t) (rows t)"

definition map_tensor :: "('a \<Rightarrow> 'b) \<Rightarrow> 'a tensor2 \<Rightarrow> 'b tensor2" where
  "map_tensor f t = Tensor2 (ncols t) (map (map f) (rows t))"

text \<open>
  A \<^verbatim>\<open>preprocessing.StringLookup\<close> object, named by the position at which the
  constructor put it into \<^verbatim>\<open>encoding_layers\<close>. Its vocabulary is state of the Keras
  object: the functions below take as \<open>lookup\<close> what each object currently maps a
  string to.
\<close>

datatype string_lookup = StringLookup nat

record multi_category_encoding =
  encoding :: "string list"
  encoding_layers :: "string_lookup option list"

text \<open>The loop of \<^verbatim>\<open>__init__\<close>: a tag that is none of the three appends nothing.\<close>

fun init_layers :: "string list \<Rightarrow> string_lookup option list \<Rightarrow> string_lookup option list" where
  "init_layers [] layers = layers"
| "init_layers (tag # rest) layers =
     (if tag = NONE then init_layers rest (layers @ [None])
      else if tag = INT_tag
        then init_layers rest (layers @ [Some (StringLookup (length layers))])
      else if tag = ONE_HOT then init_layers rest (layers @ [None])
      else init_layers rest layers)"

definition MultiCategoryEncoding :: "string list \<Rightarrow> multi_category_encoding" where
  "MultiCategoryEncoding tags = \<lparr>encoding = tags, encoding_layers = init_layers tags []\<rparr>"

text \<open>
  \<^verbatim>\<open>tf.split(t, [1] * n, axis=-1)\<close>: the \<open>n\<close> columns of \<open>t\<close>, each a tensor
  with one column (\<open>column t j\<close> holds the entries \<open>j\<close> to \<open>j + 1\<close> of every
  row). TensorFlow raises an error unless the sizes add up to the number of columns of
  \<open>t\<close>.
\<close>

definition column :: "'a tensor2 \<Rightarrow> nat \<Rightarrow> 'a tensor2" where
  "column t j = Tensor2 1 (map (\<lambda>r. take 1 (drop j r)) (rows t))"

definition tf_split_ones :: "'a tensor2 \<Rightarrow> nat \<Rightarrow> error + 'a tensor2 list" where
  "tf_split_ones t n =
     (if ncols t = n then Inr (map (column t) [0..<n])
      else Inl (InvalidArgument_split n (ncols t)))"

text \<open>The first error of a list of results, or all their values.\<close>

fun sequence :: "(error + 'a) list \<Rightarrow> error + 'a list" where
  "sequence [] = Inr []"
| "sequence (x # xs) =
     (case x of
        Inl e \<Rightarrow> Inl e
      | Inr v \<Rightarrow> (case sequence xs of Inl e \<Rightarrow> Inl e | Inr vs \<Rightarrow> Inr (v # vs)))"

text \<open>
  \<^verbatim>\<open>tf.strings.to_number(t, tf.float32)\<close> is TensorFlow's. The model takes the parser
  of one string as the parameter \<open>to_number\<close>, \<open>None\<close> for a string it rejects; the
  operation then raises \<^verbatim>\<open>InvalidArgumentError\<close> for the tensor as a whole.
\<close>

definition parse_entry :: "(string \<Rightarrow> float32 option) \<Rightarrow> string \<Rightarrow> error + float32" where
  "parse_entry to_number s =
     (case to_number s of None \<Rightarrow> Inl (InvalidArgument_to_number s) | Some x \<Rightarrow> Inr x)"

definition tf_strings_to_number ::
    "(string \<Rightarrow> float32 option) \<Rightarrow> string tensor2 \<Rightarrow> error + float32 tensor2" where
  "tf_strings_to_number to_number t =
     (case sequence (map (\<lambda>r. sequence (map (parse_entry to_number) r)) (rows t)) of
        Inl e \<Rightarrow> Inl e
      | Inr rs \<Rightarrow> Inr (Tensor2 (ncols t) rs))"

definition is_nan :: "float32 \<Rightarrow> bool" where
  "is_nan x \<longleftrightarrow> x = NaN"

text \<open>
  \<^verbatim>\<open>tf.where(tf.math.is_nan(number), tf.zeros_like(number), number)\<close>, entry by entry.
\<close>

definition where_nan_zero :: "float32 tensor2 \<Rightarrow> float32 tensor2" where
  "where_nan_zero number = map_tensor (\<lambda>x. if is_nan x then Finite 0 else x) number"

text \<open>\<^verbatim>\<open>tf.cast(encoding_layer(input_node), tf.float32)\<close>.\<close>

definition cast_lookup ::
    "(string_lookup \<Rightarrow> string \<Rightarrow> int) \<Rightarrow> string_lookup \<Rightarrow> string tensor2 \<Rightarrow> float32 tensor2" where
  "cast_lookup lookup encoding_layer input_node =
     map_tensor (\<lambda>s. Finite (of_int (lookup encoding_layer s))) input_node"

text \<open>
  The body of the loop of \<^verbatim>\<open>call\<close>, which makes the output of one column, and
  the loop over the zipped columns and layers.
\<close>

definition encode_column ::
    "(string \<Rightarrow> float32 option) \<Rightarrow> (string_lookup \<Rightarrow> string \<Rightarrow> int) \<Rightarrow>
     string tensor2 \<Rightarrow> string_lookup option \<Rightarrow> error + float32 tensor2" where
  "encode_column to_number lookup input_node encoding_layer =
     (case encoding_layer of
        None \<Rightarrow>
          (case tf_strings_to_number to_number input_node of
             Inl e \<Rightarrow> Inl e
           | Inr number \<Rightarrow> Inr (where_nan_zero number))
      | Some layer \<Rightarrow> Inr (cast_lookup lookup layer input_node))"

fun encode_columns ::
    "(string \<Rightarrow> float32 option) \<Rightarrow> (string_lookup \<Rightarrow> string \<Rightarrow> int) \<Rightarrow>
     (string tensor2 \<times> string_lookup option) list \<Rightarrow> float32 tensor2 list \<Rightarrow>
     error + float32 tensor2 list" where
  "encode_columns to_number lookup [] output_nodes = Inr output_nodes"
| "encode_columns to_number lookup ((input_node, encoding_layer) # rest) output_nodes =
     (case encode_column to_number lookup input_node encoding_layer of
        Inl e \<Rightarrow> Inl e
      | Inr output_node \<Rightarrow>
          encode_columns to_number lookup rest (output_nodes @ [output_node]))"

text \<open>
  \<^verbatim>\<open>tf.keras.layers.Concatenate()\<close> along the last axis, of tensors with the same
  number of rows. Keras raises \<^verbatim>\<open>ValueError\<close> on an empty list.
\<close>

definition Concatenate :: "'a tensor2 list \<Rightarrow> error + 'a tensor2" where
  "Concatenate ts =
     (if ts = [] then Inl ValueError_concatenate
      else Inr (Tensor2 (sum_list (map ncols ts))
                  (map (\<lambda>i. concat (map (\<lambda>t. rows t ! i) ts))
                     [0..<length (rows (hd ts))])))"

definition call ::
    "(string \<Rightarrow> float32 option) \<Rightarrow> (string_lookup \<Rightarrow> string \<Rightarrow> int) \<Rightarrow>
     multi_category_encoding \<Rightarrow> string tensor2 \<Rightarrow> error + float32 tensor2" where
  "call to_number lookup self inputs =
     (case tf_split_ones inputs (length (encoding self)) of
        Inl e \<Rightarrow> Inl e
      | Inr split_inputs \<Rightarrow>
          (case encode_columns to_number lookup
                  (zip split_inputs (encoding_layers self)) [] of
             Inl e \<Rightarrow> Inl e
           | Inr output_nodes \<Rightarrow>
               (if length output_nodes = 1 then Inr (output_nodes ! 0)
                else Concatenate output_nodes)))"

text \<open>
  A parser for concrete evaluation. It reads an optional sign followed by either a
  decimal numeral or one of the spellings of NaN and infinity, without regard to case,
  and rejects every other string, as TensorFlow's parser rejects a string that is not a
  number. (TensorFlow's parser also reads exponents and skips blanks; no evaluation
  below concerns such a string.)
\<close>

definition lower :: "char \<Rightarrow> char" where
  "lower c =
     (if 65 \<le> (of_char c :: nat) \<and> (of_char c :: nat) \<le> 90
      then char_of (of_char c + 32 :: nat) else c)"

definition is_digit :: "char \<Rightarrow> bool" where
  "is_digit c \<longleftrightarrow> 48 \<le> (of_char c :: nat) \<and> (of_char c :: nat) \<le> 57"

definition digits_value :: "string \<Rightarrow> nat" where
  "digits_value ds = foldl (\<lambda>n c. 10 * n + (of_char c - 48)) 0 ds"

definition decimal :: "string \<Rightarrow> rat option" where
  "decimal s =
     (let int_part = takeWhile (\<lambda>c. c \<noteq> CHR ''.'') s;
          rest = dropWhile (\<lambda>c. c \<noteq> CHR ''.'') s;
          frac_part = (if rest = [] then [] else tl rest)
      in if list_all is_digit (int_part @ frac_part) \<and> int_part @ frac_part \<noteq> []
         then Some (of_nat (digits_value (int_part @ frac_part)) / 10 ^ length frac_part)
         else None)"

definition unsigned_number :: "string \<Rightarrow> float32 option" where
  "unsigned_number s =
     (if map lower s = ''nan'' then Some NaN
      else if map lower s = ''inf'' \<or> map lower s = ''infinity'' then Some PosInf
      else map_option Finite (decimal s))"

fun negate :: "float32 \<Rightarrow> float32" where
  "negate (Finite q) = Finite (- q)"
| "negate PosInf = NegInf"
| "negate NegInf = PosInf"
| "negate NaN = NaN"

definition sample_to_number :: "string \<Rightarrow> float32 option" where
  "sample_to_number s =
     (case s of
        [] \<Rightarrow> None
      | c # r \<Rightarrow>
          (if c = CHR ''-'' then map_option negate (unsigned_number r)
           else if c = CHR ''+'' then unsigned_number r
           else unsigned_number s))"

text \<open>
  A lookup for concrete evaluation: every object has the vocabulary \<open>a\<close>, \<open>b\<close>
  and maps any other string to one reserved index.
\<close>

definition sample_lookup :: "string_lookup \<Rightarrow> string \<Rightarrow> int" where
  "sample_lookup layer s = (if s = ''a'' then 2 else if s = ''b'' then 3 else 1)"

section \<open>Properties of the text vectorization\<close>

lemma one_id_sample: "one_id_per_token sample_tokenizer"
  by (simp add: one_id_per_token_def sample_tokenizer_def sample_convert_def)

lemma py_slice_to_nonneg: "0 \<le> k \<Longrightarrow> py_slice_to xs k = take (nat k) xs"
  by (simp add: py_slice_to_def)

lemma py_repeat_single: "py_repeat [x] k = replicate (nat k) x"
  unfolding py_repeat_def by (induction "nat k") auto

lemma sample_tok4:
  "sample_tokenize ''hi there hi there'' = [''hi'', ''there'', ''hi'', ''there'']"
  by (simp add: sample_tokenize_def)

lemma sample_tok2: "sample_tokenize ''hi there'' = [''hi'', ''there'']"
  by (simp add: sample_tokenize_def)

lemma sample_tok0: "sample_tokenize [] = []"
  by (simp add: sample_tokenize_def)

lemma sample_encode2:
  "encode_sentence \<lparr>tokenizer = sample_tokenizer, max_seq_len = 5\<rparr> ''hi there''
     = [7632, 2045, 102, 100]"
  by (simp add: encode_sentence_def sample_tokenizer_def sample_tok2 sample_convert_def
        sample_vocab_def py_repeat_def)

lemma sample_encode0:
  "encode_sentence \<lparr>tokenizer = sample_tokenizer, max_seq_len = 5\<rparr> [] = [102, 100, 100, 100]"
  by (simp add: encode_sentence_def sample_tokenizer_def sample_tok0 sample_convert_def
        sample_vocab_def py_repeat_def numeral_eq_Suc)

subsection \<open>The batch\<close>

lemma encode_rows_nonempty:
  "\<forall>s \<in> set input_array. s \<noteq> [] \<Longrightarrow>
   encode_rows self input_array = Inr (map (\<lambda>s. encode_sentence self (hd s)) input_array)"
  by (induction input_array) (auto split: list.splits)

lemma tf_constant_int32:
  assumes "rs \<noteq> []" and "\<forall>r \<in> set rs. length r = n" and "0 < n"
  shows "tf_constant rs = Inr (Tensor tf_int32 [length rs, n] rs)"
proof -
  from assms(1) obtain r rs' where rs: "rs = r # rs'"
    by (cases rs) auto
  with assms(2,3) have "r \<noteq> []" by auto
  with rs assms(2) show ?thesis
    by (simp add: tf_constant_def list_all_iff)
qed

lemma zip_replicate_append:
  "map (\<lambda>(x, y). x @ y) (zip (replicate (length xs) c) xs) = map (\<lambda>x. c @ x) xs"
  by (induction xs) auto

lemma zip_zeros_append:
  "map (\<lambda>(x, y). x @ y) (zip (map (map (\<lambda>_. 0)) a) (map (map (\<lambda>_. 0)) b))
     = map (map (\<lambda>_. 0)) (map (\<lambda>(x, y). x @ y) (zip a b))"
proof (induction a arbitrary: b)
  case Nil
  then show ?case by simp
next
  case (Cons x a)
  then show ?case by (cases b) simp_all
qed

lemma ones_rows:
  "\<forall>r \<in> set m. length r = n \<Longrightarrow>
   map (map (\<lambda>_. 1)) m = replicate (length m) (replicate n 1)"
  by (induction m) (auto simp: map_replicate_const)

lemma zeros_rows:
  "\<forall>r \<in> set m. length r = n \<Longrightarrow>
   map (map (\<lambda>_. 0)) m = replicate (length m) (replicate n 0)"
  by (induction m) (auto simp: map_replicate_const)

subsection \<open>Claims about the text vectorization\<close>

text \<open>
  C10. For a maximum sequence length of at least 1 and a tokenizer that converts each
  token to one identifier, \<^verbatim>\<open>encode_sentence\<close> returns exactly
  \<^verbatim>\<open>max_seq_len - 1\<close> identifiers for every sentence, the empty one included,
  whichever of the two branches is taken.
\<close>

theorem encode_sentence_length:
  assumes "1 \<le> max_seq_len self" and "one_id_per_token (tokenizer self)"
  shows "int (length (encode_sentence self s)) = max_seq_len self - 1"
proof (cases "int (length (tokenize (tokenizer self) s @ [''[SEP]''])) < max_seq_len self - 1")
  case True
  with assms(2) show ?thesis
    by (simp add: encode_sentence_def Let_def one_id_per_token_def py_repeat_single)
next
  case False
  with assms show ?thesis
    by (simp add: encode_sentence_def Let_def one_id_per_token_def py_slice_to_nonneg)
qed

text \<open>
  The empty sentence, which is padded, and a sentence of five tokens, which is cut, with
  \<^verbatim>\<open>max_seq_len = 5\<close>.
\<close>

theorem encode_sentence_length_witness:
  "1 \<le> max_seq_len \<lparr>tokenizer = sample_tokenizer, max_seq_len = 5\<rparr>
   \<and> one_id_per_token (tokenizer \<lparr>tokenizer = sample_tokenizer, max_seq_len = 5\<rparr>)
   \<and> int (length (encode_sentence \<lparr>tokenizer = sample_tokenizer, max_seq_len = 5\<rparr> [])) = 4
   \<and> int (length (encode_sentence \<lparr>tokenizer = sample_tokenizer, max_seq_len = 5\<rparr>
                       ''hi there hi there hi'')) = 4"
  using encode_sentence_length [of "\<lparr>tokenizer = sample_tokenizer, max_seq_len = 5\<rparr>" "[]"]
    encode_sentence_length
      [of "\<lparr>tokenizer = sample_tokenizer, max_seq_len = 5\<rparr>" "''hi there hi there hi''"]
    one_id_sample
  by simp

text \<open>
  C3. When the tokens with the separator appended number \<^verbatim>\<open>max_seq_len - 1\<close> or
  more (and \<^verbatim>\<open>max_seq_len\<close> is at least 1), \<^verbatim>\<open>encode_sentence\<close> converts the
  first \<^verbatim>\<open>max_seq_len - 1\<close> of them. A sentence of exactly \<^verbatim>\<open>max_seq_len - 1\<close>
  tokens therefore gives the identifiers of its own tokens alone: the appended separator
  is cut off.
\<close>

theorem encode_sentence_truncates:
  assumes "1 \<le> max_seq_len self"
    and "max_seq_len self - 1 \<le> int (length (tokenize (tokenizer self) s @ [''[SEP]'']))"
  shows "encode_sentence self s =
           convert_tokens_to_ids (tokenizer self)
             (take (nat (max_seq_len self - 1)) (tokenize (tokenizer self) s @ [''[SEP]'']))
         \<and> (int (length (tokenize (tokenizer self) s)) = max_seq_len self - 1 \<longrightarrow>
              encode_sentence self s =
                convert_tokens_to_ids (tokenizer self) (tokenize (tokenizer self) s))"
  using assms
  by (auto simp: encode_sentence_def Let_def py_slice_to_nonneg)

text \<open>Four tokens with \<^verbatim>\<open>max_seq_len = 5\<close>: no identifier 102 of the separator is left.\<close>

theorem encode_sentence_truncates_witness:
  "1 \<le> max_seq_len \<lparr>tokenizer = sample_tokenizer, max_seq_len = 5\<rparr>
   \<and> int (length (sample_tokenize ''hi there hi there'')) = 5 - 1
   \<and> encode_sentence \<lparr>tokenizer = sample_tokenizer, max_seq_len = 5\<rparr> ''hi there hi there''
       = [7632, 2045, 7632, 2045]"
  using encode_sentence_truncates
    [of "\<lparr>tokenizer = sample_tokenizer, max_seq_len = 5\<rparr>" "''hi there hi there''"]
  by (simp add: sample_tokenizer_def sample_tok4 sample_convert_def sample_vocab_def)

text \<open>
  C6. When the tokens with the separator appended number fewer than
  \<^verbatim>\<open>max_seq_len - 1\<close>, \<^verbatim>\<open>encode_sentence\<close> converts them followed by as many
  \<^verbatim>\<open>[UNK]\<close> tokens as bring the length to \<^verbatim>\<open>max_seq_len - 1\<close>. With
  \<^verbatim>\<open>max_seq_len = 5\<close> and the tokens \<^verbatim>\<open>hi\<close>, \<^verbatim>\<open>there\<close> it converts
  \<^verbatim>\<open>hi\<close>, \<^verbatim>\<open>there\<close>, \<^verbatim>\<open>[SEP]\<close>, \<^verbatim>\<open>[UNK]\<close>, and the row that
  \<^verbatim>\<open>bert_encode\<close> makes of it by prepending the identifier of \<^verbatim>\<open>[CLS]\<close> has
  length 5 (for a tokenizer that converts each token to one identifier).
\<close>

theorem encode_sentence_pads:
  "(int (length (tokenize (tokenizer self) s @ [''[SEP]''])) < max_seq_len self - 1 \<longrightarrow>
      encode_sentence self s =
        convert_tokens_to_ids (tokenizer self)
          ((tokenize (tokenizer self) s @ [''[SEP]''])
             @ replicate (nat (max_seq_len self - 1)
                           - length (tokenize (tokenizer self) s @ [''[SEP]''])) ''[UNK]'')
      \<and> int (length ((tokenize (tokenizer self) s @ [''[SEP]''])
             @ replicate (nat (max_seq_len self - 1)
                           - length (tokenize (tokenizer self) s @ [''[SEP]''])) ''[UNK]''))
          = max_seq_len self - 1)
   \<and> (max_seq_len self = 5 \<and> tokenize (tokenizer self) s = [''hi'', ''there''] \<longrightarrow>
        encode_sentence self s =
          convert_tokens_to_ids (tokenizer self) [''hi'', ''there'', ''[SEP]'', ''[UNK]'']
        \<and> (one_id_per_token (tokenizer self) \<longrightarrow>
             bert_encode self [[s]] =
               Inr (Stacked tf_int32 [3, 1, 5]
                      [[convert_tokens_to_ids (tokenizer self) [''[CLS]'']
                         @ convert_tokens_to_ids (tokenizer self)
                             [''hi'', ''there'', ''[SEP]'', ''[UNK]'']],
                       [[1, 1, 1, 1, 1]],
                       [[0, 0, 0, 0, 0]]])
             \<and> length (convert_tokens_to_ids (tokenizer self) [''[CLS]'']
                        @ convert_tokens_to_ids (tokenizer self)
                            [''hi'', ''there'', ''[SEP]'', ''[UNK]'']) = 5))"
proof (intro conjI impI)
  let ?tokens = "tokenize (tokenizer self) s @ [''[SEP]'']"
  assume short: "int (length ?tokens) < max_seq_len self - 1"
  then have count: "nat (max_seq_len self - int (length ?tokens) - 1)
      = nat (max_seq_len self - 1) - length ?tokens"
    by linarith
  from short show "encode_sentence self s =
        convert_tokens_to_ids (tokenizer self)
          (?tokens @ replicate (nat (max_seq_len self - 1) - length ?tokens) ''[UNK]'')"
    unfolding encode_sentence_def Let_def py_repeat_single count by simp
  from short show "int (length
        (?tokens @ replicate (nat (max_seq_len self - 1) - length ?tokens) ''[UNK]''))
          = max_seq_len self - 1"
    by simp
next
  assume ex: "max_seq_len self = 5 \<and> tokenize (tokenizer self) s = [''hi'', ''there'']"
  then show enc: "encode_sentence self s =
          convert_tokens_to_ids (tokenizer self) [''hi'', ''there'', ''[SEP]'', ''[UNK]'']"
    by (simp add: encode_sentence_def py_repeat_def)
  assume one: "one_id_per_token (tokenizer self)"
  then have "length (convert_tokens_to_ids (tokenizer self) [''[CLS]'']) = 1"
    and "length (convert_tokens_to_ids (tokenizer self)
                   [''hi'', ''there'', ''[SEP]'', ''[UNK]'']) = 4"
    by (simp_all add: one_id_per_token_def)
  then obtain c i1 i2 i3 i4
    where cls: "convert_tokens_to_ids (tokenizer self) [''[CLS]''] = [c]"
      and ids: "convert_tokens_to_ids (tokenizer self)
                  [''hi'', ''there'', ''[SEP]'', ''[UNK]''] = [i1, i2, i3, i4]"
    by (auto simp: length_Suc_conv numeral_eq_Suc)
  from enc show "bert_encode self [[s]] =
               Inr (Stacked tf_int32 [3, 1, 5]
                      [[convert_tokens_to_ids (tokenizer self) [''[CLS]'']
                         @ convert_tokens_to_ids (tokenizer self)
                             [''hi'', ''there'', ''[SEP]'', ''[UNK]'']],
                       [[1, 1, 1, 1, 1]],
                       [[0, 0, 0, 0, 0]]])"
    by (simp add: bert_encode_def get_encoded_sentence_def tf_constant_def convert_as_def
          tf_concat_last_def ones_like_def zeros_like_def tf_stack3_def cls ids)
  show "length (convert_tokens_to_ids (tokenizer self) [''[CLS]'']
                        @ convert_tokens_to_ids (tokenizer self)
                            [''hi'', ''there'', ''[SEP]'', ''[UNK]'']) = 5"
    by (simp add: cls ids)
qed

text \<open>The sentence \<^verbatim>\<open>hi there\<close> with \<^verbatim>\<open>max_seq_len = 5\<close>.\<close>

theorem encode_sentence_pads_witness:
  "int (length (tokenize sample_tokenizer ''hi there'' @ [''[SEP]''])) < 5 - 1
   \<and> tokenize sample_tokenizer ''hi there'' = [''hi'', ''there'']
   \<and> one_id_per_token sample_tokenizer
   \<and> encode_sentence \<lparr>tokenizer = sample_tokenizer, max_seq_len = 5\<rparr> ''hi there''
       = [7632, 2045, 102, 100]
   \<and> bert_encode \<lparr>tokenizer = sample_tokenizer, max_seq_len = 5\<rparr> [[''hi there'']]
       = Inr (Stacked tf_int32 [3, 1, 5]
                [[[101, 7632, 2045, 102, 100]], [[1, 1, 1, 1, 1]], [[0, 0, 0, 0, 0]]])"
  using encode_sentence_pads
    [of "\<lparr>tokenizer = sample_tokenizer, max_seq_len = 5\<rparr>" "''hi there''"]
    one_id_sample sample_tok2
  by (simp add: sample_tokenizer_def sample_convert_def sample_vocab_def)

text \<open>
  C9, as the code has it. For a maximum sequence length of at least 2, a tokenizer that
  converts each token to one identifier and a batch of at least one row, each row holding
  a sentence, \<^verbatim>\<open>bert_encode\<close> returns the stack of three \<^verbatim>\<open>int32\<close> matrices
  of shape \<^verbatim>\<open>(batch, max_seq_len)\<close>: the identifier of \<^verbatim>\<open>[CLS]\<close> followed by
  the encoded sentence in each row, \<^verbatim>\<open>max_seq_len\<close> identifiers in all; ones
  throughout, also where the sentence was padded; zeros throughout.
\<close>

theorem bert_encode_triple:
  assumes "2 \<le> max_seq_len self"
    and "one_id_per_token (tokenizer self)"
    and "input_tensor \<noteq> []"
    and "\<forall>s \<in> set input_tensor. s \<noteq> []"
  shows "bert_encode self input_tensor =
           Inr (Stacked tf_int32 [3, length input_tensor, nat (max_seq_len self)]
                  [map (\<lambda>s. convert_tokens_to_ids (tokenizer self) [''[CLS]'']
                              @ encode_sentence self (hd s)) input_tensor,
                   replicate (length input_tensor) (replicate (nat (max_seq_len self)) 1),
                   replicate (length input_tensor) (replicate (nat (max_seq_len self)) 0)])
         \<and> (\<forall>s \<in> set input_tensor.
               length (convert_tokens_to_ids (tokenizer self) [''[CLS]'']) = 1
               \<and> int (length (convert_tokens_to_ids (tokenizer self) [''[CLS]'']
                        @ encode_sentence self (hd s))) = max_seq_len self)"
proof -
  let ?cls = "convert_tokens_to_ids (tokenizer self) [''[CLS]'']"
  let ?rows = "map (\<lambda>s. encode_sentence self (hd s)) input_tensor"
  let ?ids = "map (\<lambda>s. ?cls @ encode_sentence self (hd s)) input_tensor"
  let ?B = "length input_tensor"
  let ?L = "nat (max_seq_len self)"
  let ?L1 = "nat (max_seq_len self - 1)"
  have len_cls: "length ?cls = 1"
    using assms(2) by (simp add: one_id_per_token_def)
  have len_row: "length (encode_sentence self s) = ?L1" for s
    using assms(1,2)
    by (auto simp: encode_sentence_def Let_def one_id_per_token_def py_slice_to_nonneg
          py_repeat_single)
  have L: "Suc ?L1 = ?L" and L1: "0 < ?L1"
    using assms(1) by linarith+
  have rows_ne: "?rows \<noteq> []"
    using assms(3) by simp
  have "\<forall>r \<in> set ?rows. length r = ?L1"
    by (simp add: len_row)
  from tf_constant_int32 [OF rows_ne this L1]
  have sentence: "get_encoded_sentence self input_tensor = Inr (Tensor tf_int32 [?B, ?L1] ?rows)"
    by (simp add: get_encoded_sentence_def encode_rows_nonempty [OF assms(4)])
  have cls_ne: "replicate ?B ?cls \<noteq> []"
    using assms(3) by simp
  have "\<forall>r \<in> set (replicate ?B ?cls). length r = 1"
    by (simp add: len_cls)
  from tf_constant_int32 [OF cls_ne this]
  have cls_alone: "tf_constant (replicate ?B ?cls) = Inr (Tensor tf_int32 [?B, 1] (replicate ?B ?cls))"
    by simp
  then have cls_beside: "convert_as tf_int32 (replicate ?B ?cls)
      = Inr (Tensor tf_int32 [?B, 1] (replicate ?B ?cls))"
    by (simp add: convert_as_def)
  have zip_ids: "map (\<lambda>(x, y). x @ y) (zip (replicate ?B ?cls) ?rows) = ?ids"
    using zip_replicate_append [of ?rows ?cls] by simp
  have word_ids: "tf_concat_last (Tensor tf_int32 [?B, 1] (replicate ?B ?cls))
        (Tensor tf_int32 [?B, ?L1] ?rows)
      = Inr (Tensor tf_int32 [?B, ?L] ?ids)"
    by (simp add: tf_concat_last_def zip_ids L del: length_map)
  have len_ids: "\<forall>r \<in> set ?ids. length r = ?L"
    by (simp add: len_cls len_row L)
  have mask: "ones_like (Tensor tf_int32 [?B, ?L] ?ids)
      = Tensor tf_int32 [?B, ?L] (replicate ?B (replicate ?L 1))"
    using ones_rows [OF len_ids] by (simp add: ones_like_def)
  have zip_zeros: "map (\<lambda>(x, y). x @ y)
        (zip (map (map (\<lambda>_. 0)) (replicate ?B ?cls)) (map (map (\<lambda>_. 0)) ?rows))
      = replicate ?B (replicate ?L 0)"
    using zeros_rows [OF len_ids] by (simp only: zip_zeros_append zip_ids) simp
  have types: "tf_concat_last (zeros_like (Tensor tf_int32 [?B, 1] (replicate ?B ?cls)))
        (zeros_like (Tensor tf_int32 [?B, ?L1] ?rows))
      = Inr (Tensor tf_int32 [?B, ?L] (replicate ?B (replicate ?L 0)))"
    unfolding tf_concat_last_def zeros_like_def tensor.sel zip_zeros by (simp add: L)
  have stack: "tf_stack3 (Tensor tf_int32 [?B, ?L] ?ids)
        (Tensor tf_int32 [?B, ?L] (replicate ?B (replicate ?L 1)))
        (Tensor tf_int32 [?B, ?L] (replicate ?B (replicate ?L 0)))
      = Inr (Stacked tf_int32 [3, ?B, ?L]
               [?ids, replicate ?B (replicate ?L 1), replicate ?B (replicate ?L 0)])"
    by (simp add: tf_stack3_def)
  have "bert_encode self input_tensor =
      Inr (Stacked tf_int32 [3, ?B, ?L]
             [?ids, replicate ?B (replicate ?L 1), replicate ?B (replicate ?L 0)])"
    by (simp only: bert_encode_def sentence sum.case tensor.sel list.case Let_def
          cls_beside cls_alone word_ids mask types stack)
  moreover have "\<forall>s \<in> set input_tensor. length ?cls = 1
      \<and> int (length (?cls @ encode_sentence self (hd s))) = max_seq_len self"
    using assms(1) by (simp add: len_cls len_row)
  ultimately show ?thesis by blast
qed

text \<open>A batch of two sentences, the second one empty, with \<^verbatim>\<open>max_seq_len = 5\<close>.\<close>

theorem bert_encode_triple_witness:
  "2 \<le> max_seq_len \<lparr>tokenizer = sample_tokenizer, max_seq_len = 5\<rparr>
   \<and> one_id_per_token sample_tokenizer
   \<and> list_all (\<lambda>s. s \<noteq> []) [[''hi there''], [[]]]
   \<and> bert_encode \<lparr>tokenizer = sample_tokenizer, max_seq_len = 5\<rparr> [[''hi there''], [[]]] =
       Inr (Stacked tf_int32 [3, 2, 5]
              [[[101, 7632, 2045, 102, 100], [101, 102, 100, 100, 100]],
               [[1, 1, 1, 1, 1], [1, 1, 1, 1, 1]],
               [[0, 0, 0, 0, 0], [0, 0, 0, 0, 0]]])"
  using bert_encode_triple
    [of "\<lparr>tokenizer = sample_tokenizer, max_seq_len = 5\<rparr>" "[[''hi there''], [[]]]"]
    one_id_sample
  by (simp add: sample_encode2 sample_encode0 numeral_eq_Suc)
    (simp add: sample_tokenizer_def sample_convert_def sample_vocab_def)

text \<open>
  Against C9 as stated. With \<^verbatim>\<open>max_seq_len = 1\<close> every encoded sentence is empty,
  \<^verbatim>\<open>tf.constant\<close> makes a \<^verbatim>\<open>float32\<close> tensor of them, and the
  \<^verbatim>\<open>tf.concat\<close> of the type identifiers raises an error, its two arguments being
  \<^verbatim>\<open>int32\<close> and \<^verbatim>\<open>float32\<close>. On the empty batch the result is a
  \<^verbatim>\<open>float32\<close> tensor of shape \<^verbatim>\<open>(3, 0)\<close>.
\<close>

theorem bert_encode_counterexample:
  "bert_encode \<lparr>tokenizer = sample_tokenizer, max_seq_len = 1\<rparr> [[''hi there'']]
     = Inl InvalidArgument_concat_dtype
   \<and> bert_encode \<lparr>tokenizer = sample_tokenizer, max_seq_len = 5\<rparr> []
       = Inr (Stacked tf_float32 [3, 0] [[], [], []])"
  by code_simp

section \<open>Properties of the input nodes\<close>

text \<open>
  C7. For a time series node with a shape of one dimension, \<^verbatim>\<open>build\<close> makes the
  symbolic input (of type \<^verbatim>\<open>float32\<close>) with the lookback in front of that
  dimension; a lookback of 10 and the shape \<^verbatim>\<open>(7,)\<close> give the shape
  \<^verbatim>\<open>(10, 7)\<close>.
\<close>

theorem timeseries_build_shape:
  "build (TimeseriesInput (Some [feature_count]) (Some lb) column_names column_types) =
     Inr (TimeseriesInput (Some [Some lb, feature_count]) (Some lb) column_names column_types,
          keras_Input (Some [Some lb, feature_count]) tf_float32)
   \<and> build (TimeseriesInput (Some [Some 7]) (Some 10) column_names column_types) =
       Inr (TimeseriesInput (Some [Some 10, Some 7]) (Some 10) column_names column_types,
            keras_Input (Some [Some 10, Some 7]) tf_float32)"
  by (simp add: Let_def)

text \<open>
  C4, as the code has it. \<^verbatim>\<open>TimeseriesInput.build\<close> does not look at the lookback:
  with a lookback of \<^verbatim>\<open>None\<close> and a shape \<^verbatim>\<open>(n,)\<close> it raises nothing, sets the
  shape of the node to \<^verbatim>\<open>(None, n)\<close> and makes the symbolic input with that shape.
\<close>

theorem timeseries_build_unresolved_lookback:
  "build (TimeseriesInput (Some [feature_count]) None column_names column_types) =
     Inr (TimeseriesInput (Some [None, feature_count]) None column_names column_types,
          keras_Input (Some [None, feature_count]) tf_float32)"
  by (simp add: Let_def)

text \<open>Against C4 as stated: no error with the shape \<^verbatim>\<open>(7,)\<close> and no lookback.\<close>

theorem timeseries_build_unresolved_lookback_counterexample:
  "\<not> isl (build (TimeseriesInput (Some [Some 7]) None None None))
   \<and> build (TimeseriesInput (Some [Some 7]) None None None) =
       Inr (TimeseriesInput (Some [None, Some 7]) None None None,
            keras_Input (Some [None, Some 7]) tf_float32)"
  by (simp add: Let_def)

text \<open>
  C5, as the code has it. \<^verbatim>\<open>build\<close> leaves a plain, image, text or structured data
  node as it was. On a time series node it changes no attribute but the shape, and the
  shape only when it has one dimension \<^verbatim>\<open>(n,)\<close>, to \<^verbatim>\<open>(lookback, n)\<close>. On the
  node that a call of \<^verbatim>\<open>build\<close> leaves, \<^verbatim>\<open>build\<close> changes nothing and makes
  the same input again.
\<close>

theorem build_changes_only_timeseries_shape:
  assumes "build n = Inr (n', x)"
  shows "(case n of
            TimeseriesInput sh lb column_names column_types \<Rightarrow>
              (\<exists>sh'. n' = TimeseriesInput sh' lb column_names column_types
                 \<and> (sh' = sh \<or> (\<exists>d. sh = Some [d] \<and> sh' = Some [lb, d])))
          | _ \<Rightarrow> n' = n)
         \<and> build n' = Inr (n', x)"
  using assms
  by (cases n) (auto split: option.splits if_splits simp: Let_def length_Suc_conv)

text \<open>
  A time series node with the shape \<^verbatim>\<open>(7,)\<close> and a lookback of 10, whose shape
  \<^verbatim>\<open>build\<close> changes, and an image node, which \<^verbatim>\<open>build\<close> returns as it was.
\<close>

theorem build_changes_only_timeseries_shape_witness:
  "build (TimeseriesInput (Some [Some 7]) (Some 10) None None) =
     Inr (TimeseriesInput (Some [Some 10, Some 7]) (Some 10) None None,
          keras_Input (Some [Some 10, Some 7]) tf_float32)
   \<and> (\<exists>sh'. TimeseriesInput (Some [Some 10, Some 7]) (Some 10) None None
                 = TimeseriesInput sh' (Some 10) None None
          \<and> (sh' = Some [Some 7]
               \<or> (\<exists>d. Some [Some 7] = Some [d] \<and> sh' = Some [Some 10, d])))
   \<and> build (TimeseriesInput (Some [Some 10, Some 7]) (Some 10) None None) =
       Inr (TimeseriesInput (Some [Some 10, Some 7]) (Some 10) None None,
            keras_Input (Some [Some 10, Some 7]) tf_float32)
   \<and> build (ImageInput (Some [Some 28, Some 28]) False) =
       Inr (ImageInput (Some [Some 28, Some 28]) False,
            keras_Input (Some [Some 28, Some 28]) tf_float32)"
  using build_changes_only_timeseries_shape
    [of "TimeseriesInput (Some [Some 7]) (Some 10) None None"
        "TimeseriesInput (Some [Some 10, Some 7]) (Some 10) None None"
        "keras_Input (Some [Some 10, Some 7]) tf_float32"]
    build_changes_only_timeseries_shape
    [of "ImageInput (Some [Some 28, Some 28]) False"
        "ImageInput (Some [Some 28, Some 28]) False"
        "keras_Input (Some [Some 28, Some 28]) tf_float32"]
  by (simp add: Let_def)

text \<open>
  Against C5 as stated: \<^verbatim>\<open>build\<close> on a time series node with the shape
  \<^verbatim>\<open>(7,)\<close> and a lookback of 10 leaves the node with the shape \<^verbatim>\<open>(10, 7)\<close>.
\<close>

theorem build_changes_shape_counterexample:
  "build (TimeseriesInput (Some [Some 7]) (Some 10) None None) =
     Inr (TimeseriesInput (Some [Some 10, Some 7]) (Some 10) None None,
          keras_Input (Some [Some 10, Some 7]) tf_float32)
   \<and> TimeseriesInput (Some [Some 10, Some 7]) (Some 10) None None
       \<noteq> TimeseriesInput (Some [Some 7]) (Some 10) None None"
  by (simp add: Let_def)

section \<open>Properties of the encoding of categorical columns\<close>

lemma tags_distinct: "NONE \<noteq> INT_tag" "ONE_HOT \<noteq> INT_tag" "NONE \<noteq> ONE_HOT"
  by (simp_all add: NONE_def INT_tag_def ONE_HOT_def)

lemma init_layers_one_hot:
  "init_layers (map (\<lambda>tag. if tag = ONE_HOT then NONE else tag) tags) layers
     = init_layers tags layers"
  by (induction tags arbitrary: layers) (auto simp: tags_distinct)

lemma sequence_Inr_D: "sequence xs = Inr ys \<Longrightarrow> xs = map Inr ys"
  by (induction xs arbitrary: ys) (auto split: sum.splits)

lemma sequence_Inl_mem: "sequence xs = Inl e \<Longrightarrow> Inl e \<in> set xs"
  by (induction xs) (auto split: sum.splits)

lemma encode_columns_sequence:
  "encode_columns tn lk ps acc =
     (case sequence (map (\<lambda>(i, l). encode_column tn lk i l) ps) of
        Inl e \<Rightarrow> Inl e
      | Inr outs \<Rightarrow> Inr (acc @ outs))"
  by (induction ps arbitrary: acc) (auto split: sum.splits)

lemma parse_row_error:
  "sequence (map (parse_entry tn) r) = Inl e \<Longrightarrow>
   \<exists>s \<in> set r. tn s = None \<and> e = InvalidArgument_to_number s"
  by (induction r) (auto simp: parse_entry_def split: sum.splits option.splits)

lemma to_number_error:
  assumes "tf_strings_to_number tn t = Inl e"
  shows "\<exists>r \<in> set (rows t). \<exists>s \<in> set r. tn s = None \<and> e = InvalidArgument_to_number s"
proof -
  from assms have "sequence (map (\<lambda>r. sequence (map (parse_entry tn) r)) (rows t)) = Inl e"
    by (simp add: tf_strings_to_number_def split: sum.splits)
  then have "Inl e \<in> set (map (\<lambda>r. sequence (map (parse_entry tn) r)) (rows t))"
    by (rule sequence_Inl_mem)
  then obtain r where "r \<in> set (rows t)" "sequence (map (parse_entry tn) r) = Inl e"
    by auto
  then show ?thesis using parse_row_error by blast
qed

lemma encode_column_error:
  "encode_column tn lk i l = Inl e \<Longrightarrow> \<exists>s. e = InvalidArgument_to_number s"
  by (auto simp: encode_column_def split: option.splits sum.splits dest: to_number_error)

lemma encode_columns_error:
  assumes "encode_columns tn lk ps acc = Inl e"
  shows "\<exists>s. e = InvalidArgument_to_number s"
proof -
  from assms have "sequence (map (\<lambda>(i, l). encode_column tn lk i l) ps) = Inl e"
    by (simp add: encode_columns_sequence split: sum.splits)
  then have "Inl e \<in> set (map (\<lambda>(i, l). encode_column tn lk i l) ps)"
    by (rule sequence_Inl_mem)
  then obtain i l where "encode_column tn lk i l = Inl e"
    by force
  then show ?thesis by (rule encode_column_error)
qed

lemma init_layers_enumerate:
  "set tags \<subseteq> {NONE, INT_tag, ONE_HOT} \<Longrightarrow>
   init_layers tags layers =
     layers @ map (\<lambda>(k, tag). if tag = INT_tag then Some (StringLookup k) else None)
                (enumerate (length layers) tags)"
  by (induction tags arbitrary: layers) (auto simp: tags_distinct)

lemma init_layers_length:
  "set tags \<subseteq> {NONE, INT_tag, ONE_HOT} \<Longrightarrow> length (init_layers tags []) = length tags"
  by (simp add: init_layers_enumerate)

lemma init_layers_nth:
  "set tags \<subseteq> {NONE, INT_tag, ONE_HOT} \<Longrightarrow> j < length tags \<Longrightarrow>
   init_layers tags [] ! j = (if tags ! j = INT_tag then Some (StringLookup j) else None)"
  by (simp add: init_layers_enumerate nth_enumerate_eq)

lemma zip_map_upt:
  "length ys = n \<Longrightarrow> zip (map f [0..<n]) ys = map (\<lambda>j. (f j, ys ! j)) [0..<n]"
  by (rule nth_equalityI) auto

lemma sequence_succeeds: "\<forall>x \<in> set xs. \<not> isl x \<Longrightarrow> \<exists>ys. sequence xs = Inr ys"
  by (induction xs) (auto split: sum.splits)

lemma sequence_upt_Inr:
  assumes "sequence (map g [0..<n]) = Inr outs"
  shows "length outs = n \<and> (\<forall>j<n. g j = Inr (outs ! j))"
proof -
  from assms have eq: "map g [0..<n] = map Inr outs"
    by (rule sequence_Inr_D)
  then have len: "length outs = n"
    by (metis length_map length_upt diff_zero)
  moreover have "g j = Inr (outs ! j)" if "j < n" for j
  proof -
    have "map g [0..<n] ! j = map Inr outs ! j" using eq by simp
    with that len show ?thesis by simp
  qed
  ultimately show ?thesis by blast
qed

lemma to_number_Inr:
  assumes "tf_strings_to_number tn t = Inr num"
  shows "ncols num = ncols t \<and> length (rows num) = length (rows t)
         \<and> (\<forall>i<length (rows t). map (parse_entry tn) (rows t ! i) = map Inr (rows num ! i))"
proof -
  from assms obtain rs where
    rs: "sequence (map (\<lambda>r. sequence (map (parse_entry tn) r)) (rows t)) = Inr rs"
    and num: "num = Tensor2 (ncols t) rs"
    by (auto simp: tf_strings_to_number_def split: sum.splits)
  from rs have eq: "map (\<lambda>r. sequence (map (parse_entry tn) r)) (rows t) = map Inr rs"
    by (rule sequence_Inr_D)
  then have len: "length rs = length (rows t)"
    by (metis length_map)
  have "map (parse_entry tn) (rows t ! i) = map Inr (rs ! i)" if "i < length (rows t)" for i
  proof -
    have "map (\<lambda>r. sequence (map (parse_entry tn) r)) (rows t) ! i = map Inr rs ! i"
      using eq by simp
    with that len have "sequence (map (parse_entry tn) (rows t ! i)) = Inr (rs ! i)"
      by simp
    then show ?thesis by (rule sequence_Inr_D)
  qed
  with num len show ?thesis by simp
qed

lemma to_number_succeeds:
  assumes "\<forall>r \<in> set (rows t). \<forall>s \<in> set r. tn s \<noteq> None"
  shows "\<exists>num. tf_strings_to_number tn t = Inr num"
proof -
  have "\<exists>ys. sequence (map (parse_entry tn) r) = Inr ys" if "r \<in> set (rows t)" for r
    using assms that by (intro sequence_succeeds) (fastforce simp: parse_entry_def)
  then have "\<exists>rs. sequence (map (\<lambda>r. sequence (map (parse_entry tn) r)) (rows t)) = Inr rs"
    by (intro sequence_succeeds) fastforce
  then show ?thesis by (auto simp: tf_strings_to_number_def)
qed

lemma concat_singletons_nth:
  "\<forall>k<length xss. length (xss ! k) = 1 \<Longrightarrow> j < length xss \<Longrightarrow> concat xss ! j = xss ! j ! 0"
proof (induction xss arbitrary: j)
  case Nil
  then show ?case by simp
next
  case (Cons xs xss)
  from Cons.prems(1) have "length xs = 1" by auto
  then obtain x where xs: "xs = [x]" by (cases xs) auto
  from Cons.prems(1) have rest: "\<forall>k<length xss. length (xss ! k) = 1" by auto
  show ?case
  proof (cases j)
    case 0
    then show ?thesis by (simp add: xs)
  next
    case (Suc j')
    with Cons.prems(2) have "j' < length xss" by simp
    from Cons.IH [OF rest this] Suc show ?thesis by (simp add: xs)
  qed
qed

lemma take1_drop: "j < length r \<Longrightarrow> take (Suc 0) (drop j r) = [r ! j]"
  by (simp add: Cons_nth_drop_Suc [symmetric])

lemma column_row:
  assumes "rectangular t" and "j < ncols t" and "i < length (rows t)"
  shows "rows (column t j) ! i = [rows t ! i ! j]"
proof -
  from assms(1,3) have "length (rows t ! i) = ncols t"
    by (simp add: rectangular_def list_all_length)
  with assms(2,3) show ?thesis
    by (simp add: column_def take1_drop)
qed

lemma call_sequence:
  assumes "ncols inputs = length tags" and "set tags \<subseteq> {NONE, INT_tag, ONE_HOT}"
  shows "call tn lk (MultiCategoryEncoding tags) inputs =
     (case sequence (map (\<lambda>j. encode_column tn lk (column inputs j)
                           (if tags ! j = INT_tag then Some (StringLookup j) else None))
                      [0..<length tags]) of
        Inl e \<Rightarrow> Inl e
      | Inr output_nodes \<Rightarrow>
          (if length output_nodes = 1 then Inr (output_nodes ! 0)
           else Concatenate output_nodes))"
proof -
  let ?n = "length tags"
  let ?layers = "init_layers tags []"
  have split: "tf_split_ones inputs ?n = Inr (map (column inputs) [0..<?n])"
    using assms(1) by (simp add: tf_split_ones_def column_def)
  have zip: "zip (map (column inputs) [0..<?n]) ?layers
      = map (\<lambda>j. (column inputs j, ?layers ! j)) [0..<?n]"
    by (rule zip_map_upt) (rule init_layers_length [OF assms(2)])
  have cols: "map (\<lambda>(i, l). encode_column tn lk i l)
        (map (\<lambda>j. (column inputs j, ?layers ! j)) [0..<?n])
      = map (\<lambda>j. encode_column tn lk (column inputs j)
                (if tags ! j = INT_tag then Some (StringLookup j) else None)) [0..<?n]"
    by (simp add: init_layers_nth [OF assms(2)])
  show ?thesis
    by (simp add: call_def MultiCategoryEncoding_def split zip encode_columns_sequence cols
          del: map_map split: sum.splits)
qed

lemma encode_column_rows:
  assumes rect: "rectangular t" and j: "j < ncols t"
    and enc: "encode_column tn lk (column t j) l = Inr output_node"
  shows "length (rows output_node) = length (rows t)"
    and "i < length (rows t) \<Longrightarrow> l = None \<Longrightarrow>
           \<exists>x. tn (rows t ! i ! j) = Some x
              \<and> rows output_node ! i = [if is_nan x then Finite 0 else x]"
    and "i < length (rows t) \<Longrightarrow> l = Some layer \<Longrightarrow>
           rows output_node ! i = [Finite (of_int (lk layer (rows t ! i ! j)))]"
proof -
  have len_col: "length (rows (column t j)) = length (rows t)"
    by (simp add: column_def)
  show "length (rows output_node) = length (rows t)"
  proof (cases l)
    case None
    with enc obtain num where num: "tf_strings_to_number tn (column t j) = Inr num"
      and out: "output_node = where_nan_zero num"
      by (auto simp: encode_column_def split: sum.splits)
    from to_number_Inr [OF num] len_col out show ?thesis
      by (simp add: where_nan_zero_def map_tensor_def)
  next
    case (Some a)
    with enc len_col show ?thesis
      by (auto simp: encode_column_def cast_lookup_def map_tensor_def)
  qed
  {
    assume i: "i < length (rows t)" and l: "l = None"
    from enc l obtain num where num: "tf_strings_to_number tn (column t j) = Inr num"
      and out: "output_node = where_nan_zero num"
      by (auto simp: encode_column_def split: sum.splits)
    from to_number_Inr [OF num] i len_col
    have len: "length (rows num) = length (rows t)"
      and "map (parse_entry tn) (rows (column t j) ! i) = map Inr (rows num ! i)"
      by simp_all
    then have "[parse_entry tn (rows t ! i ! j)] = map Inr (rows num ! i)"
      by (simp add: column_row [OF rect j i])
    then obtain x where x: "rows num ! i = [x]" and "parse_entry tn (rows t ! i ! j) = Inr x"
      by (cases "rows num ! i") auto
    then have "tn (rows t ! i ! j) = Some x"
      by (auto simp: parse_entry_def split: option.splits)
    moreover from out x i len have "rows output_node ! i = [if is_nan x then Finite 0 else x]"
      by (simp add: where_nan_zero_def map_tensor_def)
    ultimately show "\<exists>x. tn (rows t ! i ! j) = Some x
              \<and> rows output_node ! i = [if is_nan x then Finite 0 else x]"
      by blast
  }
  {
    assume i: "i < length (rows t)" and l: "l = Some layer"
    with enc column_row [OF rect j i] len_col
    show "rows output_node ! i = [Finite (of_int (lk layer (rows t ! i ! j)))]"
      by (auto simp: encode_column_def cast_lookup_def map_tensor_def)
  }
qed

lemma output_cell:
  assumes len: "length outs = n" and n: "0 < n"
    and nrows: "\<forall>k<n. length (rows (outs ! k)) = m"
    and single: "\<forall>k<n. \<forall>i<m. length (rows (outs ! k) ! i) = 1"
    and res: "(if length outs = 1 then Inr (outs ! 0) else Concatenate outs) = Inr out"
    and i: "i < m" and j: "j < n"
  shows "rows out ! i ! j = rows (outs ! j) ! i ! 0"
proof (cases "length outs = 1")
  case True
  with len j have "j = 0" by simp
  with res True show ?thesis by simp
next
  case False
  from len n have ne: "outs \<noteq> []" by auto
  then have "hd outs = outs ! 0" by (rule hd_conv_nth)
  with nrows n have "length (rows (hd outs)) = m" by simp
  with res False ne i have "rows out ! i = concat (map (\<lambda>t. rows t ! i) outs)"
    by (auto simp: Concatenate_def)
  moreover have "concat (map (\<lambda>t. rows t ! i) outs) ! j = map (\<lambda>t. rows t ! i) outs ! j ! 0"
    using single i j len by (intro concat_singletons_nth) auto
  ultimately show ?thesis using j len by simp
qed

lemma call_cells:
  assumes rect: "rectangular inputs"
    and cnt: "ncols inputs = length tags"
    and valid: "set tags \<subseteq> {NONE, INT_tag, ONE_HOT}"
    and res: "call tn lk (MultiCategoryEncoding tags) inputs = Inr out"
    and i: "i < length (rows inputs)" and j: "j < length tags"
  shows "(tags ! j \<noteq> INT_tag \<longrightarrow>
            (\<exists>x. tn (rows inputs ! i ! j) = Some x
               \<and> rows out ! i ! j = (if is_nan x then Finite 0 else x)))
         \<and> (tags ! j = INT_tag \<longrightarrow>
              rows out ! i ! j = Finite (of_int (lk (StringLookup j) (rows inputs ! i ! j))))"
proof -
  let ?n = "length tags"
  let ?m = "length (rows inputs)"
  let ?layer = "\<lambda>j. if tags ! j = INT_tag then Some (StringLookup j) else None"
  let ?g = "\<lambda>j. encode_column tn lk (column inputs j) (?layer j)"
  from res obtain outs where seq: "sequence (map ?g [0..<?n]) = Inr outs"
    and fin: "(if length outs = 1 then Inr (outs ! 0) else Concatenate outs) = Inr out"
    by (auto simp: call_sequence [OF cnt valid] split: sum.splits)
  from sequence_upt_Inr [OF seq] have len: "length outs = ?n"
    and col: "\<And>k. k < ?n \<Longrightarrow> ?g k = Inr (outs ! k)"
    by simp_all
  have nrows: "\<forall>k<?n. length (rows (outs ! k)) = ?m"
    using encode_column_rows(1) [OF rect _ col] cnt by simp
  have single: "\<forall>k<?n. \<forall>i<?m. length (rows (outs ! k) ! i) = 1"
  proof (intro allI impI)
    fix k i' assume k: "k < ?n" and i': "i' < ?m"
    from k cnt have kc: "k < ncols inputs" by simp
    show "length (rows (outs ! k) ! i') = 1"
    proof (cases "tags ! k = INT_tag")
      case True
      with encode_column_rows(3) [OF rect kc col [OF k] i', of "StringLookup k"]
      show ?thesis by simp
    next
      case False
      with encode_column_rows(2) [OF rect kc col [OF k] i']
      show ?thesis by auto
    qed
  qed
  from j have n: "0 < ?n" by (cases tags) simp_all
  have cell: "rows out ! i ! j = rows (outs ! j) ! i ! 0"
    by (rule output_cell [OF len n nrows single fin i j])
  from j cnt have jc: "j < ncols inputs" by simp
  show ?thesis
  proof (cases "tags ! j = INT_tag")
    case True
    with encode_column_rows(3) [OF rect jc col [OF j] i, of "StringLookup j"] cell
    show ?thesis by simp
  next
    case False
    with encode_column_rows(2) [OF rect jc col [OF j] i] cell
    show ?thesis by auto
  qed
qed

lemma column_entries:
  assumes "rectangular t" and "j < ncols t"
    and "r \<in> set (rows (column t j))" and "s \<in> set r"
  shows "\<exists>i<length (rows t). s = rows t ! i ! j"
proof -
  from assms(3) obtain i where i: "i < length (rows t)" and "r = rows (column t j) ! i"
    by (auto simp: in_set_conv_nth column_def)
  with column_row [OF assms(1,2) i] assms(4) show ?thesis by auto
qed

lemma call_succeeds:
  assumes rect: "rectangular inputs"
    and cnt: "ncols inputs = length tags"
    and valid: "set tags \<subseteq> {NONE, INT_tag, ONE_HOT}"
    and ne: "tags \<noteq> []"
    and parse: "\<forall>i<length (rows inputs). \<forall>j<length tags.
                  tags ! j \<noteq> INT_tag \<longrightarrow> tn (rows inputs ! i ! j) \<noteq> None"
  shows "\<exists>out. call tn lk (MultiCategoryEncoding tags) inputs = Inr out"
proof -
  let ?n = "length tags"
  let ?layer = "\<lambda>j. if tags ! j = INT_tag then Some (StringLookup j) else None"
  let ?g = "\<lambda>j. encode_column tn lk (column inputs j) (?layer j)"
  have "\<not> isl (?g j)" if j: "j < ?n" for j
  proof (cases "tags ! j = INT_tag")
    case True
    then show ?thesis by (simp add: encode_column_def)
  next
    case False
    have "\<forall>r \<in> set (rows (column inputs j)). \<forall>s \<in> set r. tn s \<noteq> None"
    proof (intro ballI)
      fix r s assume "r \<in> set (rows (column inputs j))" and "s \<in> set r"
      with column_entries [OF rect] j cnt obtain i
        where "i < length (rows inputs)" and "s = rows inputs ! i ! j"
        by metis
      with parse j False show "tn s \<noteq> None" by simp
    qed
    from to_number_succeeds [OF this] False show ?thesis
      by (auto simp: encode_column_def)
  qed
  then have "\<forall>x \<in> set (map ?g [0..<?n]). \<not> isl x" by auto
  from sequence_succeeds [OF this] obtain outs where seq: "sequence (map ?g [0..<?n]) = Inr outs"
    by blast
  from sequence_upt_Inr [OF seq] ne have "outs \<noteq> []" by auto
  with seq show ?thesis
    by (simp add: call_sequence [OF cnt valid] Concatenate_def)
qed

lemma encode_column_rejects:
  assumes "encode_column tn lk input_node l = Inl e"
  shows "\<exists>s. tn s = None \<and> e = InvalidArgument_to_number s"
proof -
  from assms have "tf_strings_to_number tn input_node = Inl e"
    by (auto simp: encode_column_def split: option.splits sum.splits)
  from to_number_error [OF this] show ?thesis by blast
qed

lemma call_error:
  assumes cnt: "ncols inputs = length tags"
    and valid: "set tags \<subseteq> {NONE, INT_tag, ONE_HOT}"
    and ne: "tags \<noteq> []"
    and err: "call tn lk (MultiCategoryEncoding tags) inputs = Inl e"
  shows "\<exists>s. tn s = None \<and> e = InvalidArgument_to_number s"
proof -
  let ?g = "\<lambda>j. encode_column tn lk (column inputs j)
                 (if tags ! j = INT_tag then Some (StringLookup j) else None)"
  show ?thesis
  proof (cases "sequence (map ?g [0..<length tags])")
    case (Inl e')
    with err have "e' = e"
      by (simp add: call_sequence [OF cnt valid])
    with Inl have "Inl e \<in> set (map ?g [0..<length tags])"
      by (simp only: sequence_Inl_mem)
    then obtain j where "?g j = Inl e"
      by auto
    then show ?thesis by (rule encode_column_rejects)
  next
    case (Inr outs)
    from sequence_upt_Inr [OF this] ne have "outs \<noteq> []" by auto
    with Inr err show ?thesis
      by (simp add: call_sequence [OF cnt valid] Concatenate_def split: if_splits)
  qed
qed
subsection \<open>Evaluations with the sample parser and lookup\<close>

lemma sample_none_column:
  "call sample_to_number sample_lookup (MultiCategoryEncoding [NONE])
     (Tensor2 1 [[''1.5''], [''NaN'']]) = Inr (Tensor2 1 [[Finite (3 / 2)], [Finite 0]])"
  by code_simp

lemma sample_none_column_parses:
  "sample_to_number ''1.5'' = Some (Finite (3 / 2))" "sample_to_number ''NaN'' = Some NaN"
  by code_simp+

lemma sample_rejected_entry:
  "sample_to_number ''abc'' = None"
  "call sample_to_number sample_lookup (MultiCategoryEncoding [NONE])
     (Tensor2 1 [[''1.5''], [''abc'']]) = Inl (InvalidArgument_to_number ''abc'')"
  by code_simp+

lemma sample_one_hot_column:
  "call sample_to_number sample_lookup (MultiCategoryEncoding [ONE_HOT])
     (Tensor2 1 [[''2.5''], [''nan'']]) = Inr (Tensor2 1 [[Finite (5 / 2)], [Finite 0]])"
  by code_simp

lemma sample_two_tags_three_columns:
  "call sample_to_number sample_lookup (MultiCategoryEncoding [NONE, INT_tag])
     (Tensor2 3 [[''1.5'', ''a'', ''2.5''], [''NaN'', ''c'', ''7'']])
   = Inl (InvalidArgument_split 2 3)"
  by code_simp

lemma sample_three_tags_three_columns:
  "call sample_to_number sample_lookup (MultiCategoryEncoding [NONE, INT_tag, ONE_HOT])
     (Tensor2 3 [[''1.5'', ''a'', ''2.5''], [''NaN'', ''c'', ''7'']])
   = Inr (Tensor2 3 [[Finite (3 / 2), Finite 2, Finite (5 / 2)],
                     [Finite 0, Finite 1, Finite 7]])"
  by code_simp

subsection \<open>Claims about the encoding of categorical columns\<close>

text \<open>
  C8. When the number of columns of the input differs from the number of tags,
  \<^verbatim>\<open>call\<close> raises the error of \<^verbatim>\<open>tf.split\<close>, whatever the state of the layer
  (three columns with two tags being one such case); when the two numbers are equal,
  \<^verbatim>\<open>call\<close> never raises that error.
\<close>

theorem call_tag_count:
  "(ncols inputs \<noteq> length (encoding self) \<longrightarrow>
      call to_number lookup self inputs
        = Inl (InvalidArgument_split (length (encoding self)) (ncols inputs)))
   \<and> (ncols inputs = length (encoding self) \<longrightarrow>
        (\<forall>n c. call to_number lookup self inputs \<noteq> Inl (InvalidArgument_split n c)))"
  by (auto simp: call_def tf_split_ones_def Concatenate_def
        split: sum.splits if_splits dest: encode_columns_error)

text \<open>Three columns with two tags, and the same three columns with three tags.\<close>

theorem call_tag_count_witness:
  "ncols (Tensor2 3 [[''1.5'', ''a'', ''2.5''], [''NaN'', ''c'', ''7'']])
     \<noteq> length (encoding (MultiCategoryEncoding [NONE, INT_tag]))
   \<and> call sample_to_number sample_lookup (MultiCategoryEncoding [NONE, INT_tag])
         (Tensor2 3 [[''1.5'', ''a'', ''2.5''], [''NaN'', ''c'', ''7'']])
       = Inl (InvalidArgument_split 2 3)
   \<and> ncols (Tensor2 3 [[''1.5'', ''a'', ''2.5''], [''NaN'', ''c'', ''7'']])
       = length (encoding (MultiCategoryEncoding [NONE, INT_tag, ONE_HOT]))
   \<and> call sample_to_number sample_lookup (MultiCategoryEncoding [NONE, INT_tag, ONE_HOT])
         (Tensor2 3 [[''1.5'', ''a'', ''2.5''], [''NaN'', ''c'', ''7'']])
       \<noteq> Inl (InvalidArgument_split 3 3)
   \<and> call sample_to_number sample_lookup (MultiCategoryEncoding [NONE, INT_tag, ONE_HOT])
         (Tensor2 3 [[''1.5'', ''a'', ''2.5''], [''NaN'', ''c'', ''7'']])
       = Inr (Tensor2 3 [[Finite (3 / 2), Finite 2, Finite (5 / 2)],
                         [Finite 0, Finite 1, Finite 7]])"
  using call_tag_count
    [of "Tensor2 3 [[''1.5'', ''a'', ''2.5''], [''NaN'', ''c'', ''7'']]"
        "MultiCategoryEncoding [NONE, INT_tag]" sample_to_number sample_lookup]
    call_tag_count
    [of "Tensor2 3 [[''1.5'', ''a'', ''2.5''], [''NaN'', ''c'', ''7'']]"
        "MultiCategoryEncoding [NONE, INT_tag, ONE_HOT]" sample_to_number sample_lookup]
    sample_two_tags_three_columns sample_three_tags_three_columns
  by (simp add: MultiCategoryEncoding_def)

text \<open>
  C1, as the code has it. The constructor raises nothing for the tag \<^verbatim>\<open>one-hot\<close>
  and gives its column no lookup, as it does for the tag \<^verbatim>\<open>none\<close>: the layers are
  those of the encoding list in which every \<^verbatim>\<open>one-hot\<close> is replaced by
  \<^verbatim>\<open>none\<close>, and so is every result of \<^verbatim>\<open>call\<close>.
\<close>

theorem one_hot_treated_as_none:
  "encoding_layers (MultiCategoryEncoding tags)
     = encoding_layers
         (MultiCategoryEncoding (map (\<lambda>tag. if tag = ONE_HOT then NONE else tag) tags))
   \<and> call to_number lookup (MultiCategoryEncoding tags) inputs
       = call to_number lookup
           (MultiCategoryEncoding (map (\<lambda>tag. if tag = ONE_HOT then NONE else tag) tags))
           inputs"
proof -
  let ?tags' = "map (\<lambda>tag. if tag = ONE_HOT then NONE else tag) tags"
  have layers: "encoding_layers (MultiCategoryEncoding tags)
      = encoding_layers (MultiCategoryEncoding ?tags')"
    by (simp add: MultiCategoryEncoding_def init_layers_one_hot)
  have count: "length (encoding (MultiCategoryEncoding tags))
      = length (encoding (MultiCategoryEncoding ?tags'))"
    by (simp add: MultiCategoryEncoding_def)
  have "call to_number lookup (MultiCategoryEncoding tags) inputs
      = call to_number lookup (MultiCategoryEncoding ?tags') inputs"
    unfolding call_def layers count ..
  with layers show ?thesis by simp
qed

text \<open>
  Against C1 as stated: a layer with the one tag \<^verbatim>\<open>one-hot\<close> is constructed, and
  its first use returns the column parsed as numbers.
\<close>

theorem one_hot_counterexample:
  "encoding_layers (MultiCategoryEncoding [ONE_HOT]) = [None]
   \<and> call sample_to_number sample_lookup (MultiCategoryEncoding [ONE_HOT])
         (Tensor2 1 [[''2.5''], [''nan'']])
       = Inr (Tensor2 1 [[Finite (5 / 2)], [Finite 0]])"
proof (rule conjI)
  show "encoding_layers (MultiCategoryEncoding [ONE_HOT]) = [None]"
    by (simp add: MultiCategoryEncoding_def tags_distinct)
  show "call sample_to_number sample_lookup (MultiCategoryEncoding [ONE_HOT])
         (Tensor2 1 [[''2.5''], [''nan'']])
       = Inr (Tensor2 1 [[Finite (5 / 2)], [Finite 0]])"
    by (rule sample_one_hot_column)
qed

text \<open>
  C2, as the code has it. Take a rectangular input with as many columns as there are
  tags, each tag one of the three, and an entry of a column tagged \<^verbatim>\<open>none\<close>. If
  the parser rejects the entry, \<^verbatim>\<open>call\<close> raises the error of the parser for a
  string that it rejects: the entry is not replaced by zero. If \<^verbatim>\<open>call\<close> returns, the parser accepted the entry, and the
  output holds zero in its place if it was parsed as NaN and the parsed number
  otherwise. \<^verbatim>\<open>call\<close> does return when the parser accepts every entry of the
  columns that are not tagged \<^verbatim>\<open>int\<close>.
\<close>

theorem none_column_imputation:
  assumes "rectangular inputs"
    and "ncols inputs = length tags"
    and "set tags \<subseteq> {NONE, INT_tag, ONE_HOT}"
    and "i < length (rows inputs)" and "j < length tags"
    and "tags ! j = NONE"
  shows "(to_number (rows inputs ! i ! j) = None \<longrightarrow>
            (\<exists>s. to_number s = None
               \<and> call to_number lookup (MultiCategoryEncoding tags) inputs
                   = Inl (InvalidArgument_to_number s)))
         \<and> (\<forall>out. call to_number lookup (MultiCategoryEncoding tags) inputs = Inr out \<longrightarrow>
               (\<exists>x. to_number (rows inputs ! i ! j) = Some x
                  \<and> rows out ! i ! j = (if is_nan x then Finite 0 else x)))
         \<and> ((\<forall>i'<length (rows inputs). \<forall>j'<length tags.
                tags ! j' \<noteq> INT_tag \<longrightarrow> to_number (rows inputs ! i' ! j') \<noteq> None) \<longrightarrow>
              (\<exists>out. call to_number lookup (MultiCategoryEncoding tags) inputs = Inr out))"
proof (intro conjI allI impI)
  from assms(6) have numeric: "tags ! j \<noteq> INT_tag"
    by (simp add: tags_distinct)
  show cell: "\<exists>x. to_number (rows inputs ! i ! j) = Some x
      \<and> rows out ! i ! j = (if is_nan x then Finite 0 else x)"
    if "call to_number lookup (MultiCategoryEncoding tags) inputs = Inr out" for out
    using call_cells [OF assms(1-3) that assms(4,5)] numeric by simp
  from assms(5) have ne: "tags \<noteq> []" by auto
  show "\<exists>s. to_number s = None
      \<and> call to_number lookup (MultiCategoryEncoding tags) inputs
          = Inl (InvalidArgument_to_number s)"
    if "to_number (rows inputs ! i ! j) = None"
  proof (cases "call to_number lookup (MultiCategoryEncoding tags) inputs")
    case (Inl e)
    from call_error [OF assms(2,3) ne this] Inl show ?thesis by blast
  next
    case (Inr out)
    from cell [OF this] that show ?thesis by simp
  qed
  from ne show "\<exists>out. call to_number lookup (MultiCategoryEncoding tags) inputs = Inr out"
    if "\<forall>i'<length (rows inputs). \<forall>j'<length tags.
          tags ! j' \<noteq> INT_tag \<longrightarrow> to_number (rows inputs ! i' ! j') \<noteq> None"
    using call_succeeds [OF assms(1-3) _ that] by simp
qed

text \<open>
  The column \<^verbatim>\<open>1.5\<close>, \<^verbatim>\<open>NaN\<close> tagged \<^verbatim>\<open>none\<close>, at its second entry,
  and the column \<^verbatim>\<open>1.5\<close>, \<^verbatim>\<open>abc\<close>, at its second entry.
\<close>

theorem none_column_imputation_witness:
  "rectangular (Tensor2 1 [[''1.5''], [''NaN'']])
   \<and> ncols (Tensor2 1 [[''1.5''], [''NaN'']]) = length [NONE]
   \<and> set [NONE] \<subseteq> {NONE, INT_tag, ONE_HOT}
   \<and> sample_to_number (rows (Tensor2 1 [[''1.5''], [''NaN'']]) ! 1 ! 0) = Some NaN
   \<and> call sample_to_number sample_lookup (MultiCategoryEncoding [NONE])
         (Tensor2 1 [[''1.5''], [''NaN'']])
       = Inr (Tensor2 1 [[Finite (3 / 2)], [Finite 0]])
   \<and> rows (Tensor2 1 [[Finite (3 / 2)], [Finite 0]]) ! 1 ! 0 = Finite 0
   \<and> rectangular (Tensor2 1 [[''1.5''], [''abc'']])
   \<and> sample_to_number (rows (Tensor2 1 [[''1.5''], [''abc'']]) ! 1 ! 0) = None
   \<and> call sample_to_number sample_lookup (MultiCategoryEncoding [NONE])
         (Tensor2 1 [[''1.5''], [''abc'']])
       = Inl (InvalidArgument_to_number ''abc'')"
  using none_column_imputation
    [of "Tensor2 1 [[''1.5''], [''NaN'']]" "[NONE]" 1 0 sample_to_number sample_lookup]
    none_column_imputation
    [of "Tensor2 1 [[''1.5''], [''abc'']]" "[NONE]" 1 0 sample_to_number sample_lookup]
    sample_none_column sample_none_column_parses sample_rejected_entry
  by (simp add: rectangular_def)

text \<open>
  Against C2 as stated: on the column \<^verbatim>\<open>1.5\<close>, \<^verbatim>\<open>NaN\<close>, \<^verbatim>\<open>abc\<close> the
  transform raises the error of the parser for \<^verbatim>\<open>abc\<close>.
\<close>

theorem none_column_malformed_counterexample:
  "call sample_to_number sample_lookup (MultiCategoryEncoding [NONE])
     (Tensor2 1 [[''1.5''], [''NaN''], [''abc'']]) = Inl (InvalidArgument_to_number ''abc'')"
  by code_simp

end
